theory Spec2Isabelle
  imports Complex_Main "HOL-Library.Extended_Nat"
begin

section \<open>Data model\<close>

text \<open>
  A Python float (a loss rate, a range, a simulated time, a random draw) is the real
  number it stands for (the infinities and NaN are left out), so comparing two floats is
  comparing two reals. The operations
  that round (\<^verbatim>\<open>math.dist\<close>, \<^verbatim>\<open>math.log2\<close>, the power \<^verbatim>\<open>**\<close>) are not computed here: they
  are parameters of the model, see \<open>Arith\<close> below. Python integers are \<^typ>\<open>int\<close>. Debug
  printing (\<^verbatim>\<open>self.log\<close>) writes to the console only and is left out of every function
  below.
\<close>

type_synonym SimTime = real

datatype error = RuntimeError | ValueError | TypeError | ZeroDivisionError | OverflowError

subsection \<open>Frames (message.py)\<close>

text \<open>
  Modelled from the spec: the module \<^verbatim>\<open>wsn_simulation/message.py\<close> (classes
  \<^verbatim>\<open>Message\<close>, \<^verbatim>\<open>FloodBeaconMessage\<close>, \<^verbatim>\<open>Frame\<close> and the property
  \<^verbatim>\<open>Frame.identity\<close>) is not among the sources. The spec gives a frame as the
  immutable packet {type, src, dst (0 = broadcast), seq, payload}; the callers in
  \<^verbatim>\<open>node/core.py\<close> construct it with the keywords TYPE, SRC, DST, SEQ, PAYLOAD and read
  \<^verbatim>\<open>PAYLOAD.FLOOD_ID\<close> of a \<^verbatim>\<open>FloodBeaconMessage\<close>. The field TYPE is written \<open>TYPE'\<close>,
  the plain name being reserved syntax.
\<close>

datatype Message = FloodBeaconMessage (FLOOD_ID: string) | OtherMessage string

record Frame =
  TYPE' :: string
  SRC :: int
  DST :: int
  SEQ :: int
  PAYLOAD :: Message

text \<open>
  Modelled from the spec: \<^verbatim>\<open>Frame.identity\<close> is the value the medium compares for
  "identical transmissions": equality by value over {type, src, dst, seq, payload}
  (\<^verbatim>\<open>media.py\<close> calls it the tuple of the dataclass).
\<close>

definition identity :: "Frame \<Rightarrow> string \<times> int \<times> int \<times> int \<times> Message" where
  "identity f = (TYPE' f, SRC f, DST f, SEQ f, PAYLOAD f)"

subsection \<open>Transmissions, node configuration, network registry\<close>

record Transmission =
  frame :: Frame
  sender_id :: int

record NodeConfig =
  node_id :: int
  node_posx :: int
  node_posy :: int
  node_hop :: int
  max_transmissions :: int
  guard_time :: SimTime
  radio_txdistance :: real
  radio_channel :: int
  DEBUG_POSITION :: bool
  DEBUG_RADIO :: bool
  DEBUG_SENSOR :: bool

definition node_pos :: "NodeConfig \<Rightarrow> int \<times> int" where
  "node_pos c = (node_posx c, node_posy c)"

text \<open>
  \<^verbatim>\<open>NetworkManager._node_by_id\<close>: the medium reads only the configuration of the node it
  looks up, so the registry is the dictionary from node id to that configuration.
\<close>

type_synonym NetworkManager = "int \<rightharpoonup> NodeConfig"

definition get_node :: "NetworkManager \<Rightarrow> int \<Rightarrow> error + NodeConfig" where
  "get_node net nid = (case net nid of None \<Rightarrow> Inl ValueError | Some n \<Rightarrow> Inr n)"

subsection \<open>The scheduler's queue and the per-node stores (simpy)\<close>

text \<open>
  The event queue of \<^verbatim>\<open>simpy.Environment\<close>: \<^verbatim>\<open>schedule\<close> pushes
  (now + delay, priority, eid, event) with a fresh, increasing eid. Only the events this
  repository schedules itself are named.
\<close>

datatype Process = Reenable_rx int | Flood_process int Frame

datatype Event = Propagation | Initialize Process

record Environment =
  now :: SimTime
  queue :: "(SimTime \<times> nat \<times> nat \<times> Event) list"
  eid :: nat

definition URGENT :: nat where "URGENT = 0"
definition NORMAL :: nat where "NORMAL = 1"

definition schedule :: "Environment \<Rightarrow> Event \<Rightarrow> nat \<Rightarrow> SimTime \<Rightarrow> Environment" where
  "schedule env ev priority delay =
     env\<lparr>queue := queue env @ [(now env + delay, priority, eid env, ev)],
         eid := Suc (eid env)\<rparr>"

text \<open>\<^verbatim>\<open>env.process(gen)\<close> schedules the start of the new process urgently, at the current time.\<close>

definition process :: "Environment \<Rightarrow> Process \<Rightarrow> Environment" where
  "process env p = schedule env (Initialize p) URGENT 0"

text \<open>
  \<^verbatim>\<open>simpy.Store\<close>: a FIFO of items with a capacity; a put beyond the capacity waits in
  the put queue. The consumer side (\<^verbatim>\<open>get\<close>) belongs to the node processes.
\<close>

record Store =
  items :: "Frame list"
  put_queue :: "Frame list"

definition store_put :: "enat \<Rightarrow> Frame \<Rightarrow> Store \<Rightarrow> Store" where
  "store_put cap f s =
     (if enat (length (items s)) < cap then s\<lparr>items := items s @ [f]\<rparr>
      else s\<lparr>put_queue := put_queue s @ [f]\<rparr>)"

subsection \<open>The process-wide random stream\<close>

text \<open>
  \<^verbatim>\<open>random.random()\<close> reads the next value of a stream fixed by the seed; the state is the
  stream and the number of values consumed so far.
\<close>

record rng =
  draws :: "nat \<Rightarrow> real"
  consumed :: nat

definition random :: "rng \<Rightarrow> real \<times> rng" where
  "random g = (draws g (consumed g), g\<lparr>consumed := Suc (consumed g)\<rparr>)"

section \<open>The medium (media.py)\<close>

record MediaConfig =
  capacity :: enat
  base_loss_rate :: real
  DEBUG_MEDIA :: bool
  ENABLE_CI :: bool

record Media =
  config :: MediaConfig
  node_pipes :: "(int \<times> Store) list"
  pending :: "Transmission list"
  propagating :: bool
  last_tx_time :: "int \<rightharpoonup> SimTime"

definition Media_init :: "MediaConfig \<Rightarrow> Media" where
  "Media_init cfg =
     \<lparr>config = cfg, node_pipes = [], pending = [], propagating = False,
      last_tx_time = Map.empty\<rparr>"

definition get_output_conn :: "int \<Rightarrow> Media \<Rightarrow> Media" where
  "get_output_conn nid m =
     m\<lparr>node_pipes := node_pipes m @ [(nid, \<lparr>items = [], put_queue = []\<rparr>)]\<rparr>"

text \<open>
  \<^verbatim>\<open>Media.put\<close>. The result is the exception raised (if any) together with the
  environment and the medium as the call leaves them.
\<close>

definition put :: "Frame \<Rightarrow> int \<Rightarrow> Environment \<Rightarrow> Media \<Rightarrow> error option \<times> Environment \<times> Media" where
  "put f transmitter_id env m =
     (if node_pipes m = [] then (Some RuntimeError, env, m)
      else if last_tx_time m transmitter_id = Some (now env) then (None, env, m)
      else
        (let m1 = m\<lparr>last_tx_time := (last_tx_time m)(transmitter_id \<mapsto> now env),
                    pending := pending m @ [\<lparr>frame = f, sender_id = transmitter_id\<rparr>]\<rparr>
         in if \<not> propagating m1
            then (None, schedule env Propagation NORMAL 0, m1\<lparr>propagating := True\<rparr>)
            else (None, env, m1)))"

subsection \<open>Range and channel filters\<close>

text \<open>
  The floating-point operations the medium calls. They belong to Python and its C
  library, not to this repository, and they round: \<^verbatim>\<open>math.dist\<close> on two points with
  integer coordinates, \<^verbatim>\<open>math.log2\<close> of a positive integer, and the power \<^verbatim>\<open>**\<close> of two
  floats, which is a float, or a complex number (for a negative base and an exponent
  that is not integral), or raises \<^verbatim>\<open>ZeroDivisionError\<close> or \<^verbatim>\<open>OverflowError\<close>. The functions
  of the medium take them as the parameter \<open>A\<close>; what is proved for every \<open>A\<close> holds of the
  operations as Python computes them.
\<close>

datatype pow_result = Real real | Complex | ZeroDivision | Overflow

record Arith =
  math_dist :: "int \<times> int \<Rightarrow> int \<times> int \<Rightarrow> real"
  math_log2 :: "nat \<Rightarrow> real"
  float_pow :: "real \<Rightarrow> real \<Rightarrow> pow_result"

definition in_range :: "Arith \<Rightarrow> NodeConfig \<Rightarrow> NodeConfig \<Rightarrow> bool" where
  "in_range A sender receiver =
     (let max_distance = radio_txdistance sender;
          distance = math_dist A (node_pos sender) (node_pos receiver)
      in if distance > max_distance then False else True)"

definition on_channel :: "NodeConfig \<Rightarrow> NodeConfig \<Rightarrow> bool" where
  "on_channel sender receiver =
     (if radio_channel receiver \<noteq> radio_channel sender then False else True)"

subsection \<open>Loss and interference\<close>

text \<open>
  \<^verbatim>\<open>Media._loss_handler\<close>. The set \<^verbatim>\<open>senders\<close> it builds is used for the debug line
  only. The effective loss is \<^verbatim>\<open>base_loss_rate ** math.log2(k + 1)\<close>: when the power
  raises, no draw has been taken; when it is complex, the comparison with the draw
  raises \<^verbatim>\<open>TypeError\<close>, after the draw was taken.
\<close>

definition loss_handler ::
  "Arith \<Rightarrow> MediaConfig \<Rightarrow> Transmission list \<Rightarrow> int \<Rightarrow> rng
     \<Rightarrow> (error + Transmission list) \<times> rng" where
  "loss_handler A cfg transmissions receiver_id g =
     (if transmissions = [] then (Inr [], g)
      else if length transmissions = 1 then
        (let (u, g') = random g
         in if u < base_loss_rate cfg then (Inr [], g') else (Inr [transmissions ! 0], g'))
      else if ENABLE_CI cfg then
        (let identities = set (map (\<lambda>tx. identity (frame tx)) transmissions)
         in if card identities > 1 then (Inr [], g)
            else
              (let k = length transmissions
               in case float_pow A (base_loss_rate cfg) (math_log2 A (k + 1)) of
                    Real effective_loss \<Rightarrow>
                      (let (u, g') = random g
                       in if u < effective_loss then (Inr [], g')
                          else (Inr [transmissions ! 0], g'))
                  | Complex \<Rightarrow> (Inl TypeError, snd (random g))
                  | ZeroDivision \<Rightarrow> (Inl ZeroDivisionError, g)
                  | Overflow \<Rightarrow> (Inl OverflowError, g)))
      else (Inr [], g))"

subsection \<open>Resolution of a tick\<close>

text \<open>
  The inner loop of \<^verbatim>\<open>Media._propagate\<close>: the pending transmissions that pass the range
  and channel filters for one receiver, in the order of the batch. Looking a sender up
  raises when the registry does not know it.
\<close>

fun candidates ::
  "Arith \<Rightarrow> NetworkManager \<Rightarrow> NodeConfig \<Rightarrow> Transmission list \<Rightarrow> error + Transmission list" where
  "candidates A net receiver [] = Inr []"
| "candidates A net receiver (tx # txs) =
     (case get_node net (sender_id tx) of
        Inl e \<Rightarrow> Inl e
      | Inr sender \<Rightarrow>
          (if in_range A sender receiver \<and> on_channel sender receiver
           then (case candidates A net receiver txs of
                   Inl e \<Rightarrow> Inl e
                 | Inr rx \<Rightarrow> Inr (tx # rx))
           else candidates A net receiver txs))"

text \<open>
  The body of the receiver loop of \<^verbatim>\<open>Media._propagate\<close>, for one entry of
  \<^verbatim>\<open>node_pipes\<close>: the exception raised (if any), the receiver's store and the random
  stream afterwards.
\<close>

definition propagate_receiver ::
  "Arith \<Rightarrow> MediaConfig \<Rightarrow> NetworkManager \<Rightarrow> Transmission list \<Rightarrow> int set \<Rightarrow> int \<times> Store
     \<Rightarrow> rng \<Rightarrow> error option \<times> Store \<times> rng" where
  "propagate_receiver A cfg net pend sender_ids p g =
     (let receiver_id = fst p; store = snd p
      in if receiver_id \<in> sender_ids then (None, store, g)
         else
           (case get_node net receiver_id of
              Inl e \<Rightarrow> (Some e, store, g)
            | Inr receiver \<Rightarrow>
                (case candidates A net receiver pend of
                   Inl e \<Rightarrow> (Some e, store, g)
                 | Inr rx \<Rightarrow>
                     (case loss_handler A cfg rx receiver_id g of
                        (Inl e, g') \<Rightarrow> (Some e, store, g')
                      | (Inr rx', g') \<Rightarrow>
                          (None, fold (\<lambda>tx s. store_put (capacity cfg) (frame tx) s) rx' store,
                           g')))))"

text \<open>The receiver loop: an exception stops the sweep and leaves the later stores untouched.\<close>

fun sweep ::
  "Arith \<Rightarrow> MediaConfig \<Rightarrow> NetworkManager \<Rightarrow> Transmission list \<Rightarrow> int set
     \<Rightarrow> (int \<times> Store) list \<Rightarrow> rng \<Rightarrow> error option \<times> (int \<times> Store) list \<times> rng" where
  "sweep A cfg net pend sender_ids [] g = (None, [], g)"
| "sweep A cfg net pend sender_ids (p # ps) g =
     (case propagate_receiver A cfg net pend sender_ids p g of
        (Some e, s', g') \<Rightarrow> (Some e, (fst p, s') # ps, g')
      | (None, s', g') \<Rightarrow>
          (case sweep A cfg net pend sender_ids ps g' of
             (r, ps', g'') \<Rightarrow> (r, (fst p, s') # ps', g'')))"

text \<open>
  \<^verbatim>\<open>Media._propagate\<close>: the batch and the flag are reset after the sweep, so an exception
  in the sweep leaves them as they were.
\<close>

definition propagate ::
  "Arith \<Rightarrow> NetworkManager \<Rightarrow> Media \<Rightarrow> rng \<Rightarrow> error option \<times> Media \<times> rng" where
  "propagate A net m g =
     (let sender_ids = set (map sender_id (pending m))
      in case sweep A (config m) net (pending m) sender_ids (node_pipes m) g of
           (Some e, pipes', g') \<Rightarrow> (Some e, m\<lparr>node_pipes := pipes'\<rparr>, g')
         | (None, pipes', g') \<Rightarrow>
             (None, m\<lparr>node_pipes := pipes', pending := [], propagating := False\<rparr>, g'))"

section \<open>Nodes (node/core.py, node/sink.py)\<close>

record Node =
  node_config :: NodeConfig
  flood_beacon_ids :: "string set"
  flood_beacon_times :: "string \<rightharpoonup> SimTime set"
  local_tx_count :: int
  radio_rx_enable :: bool

definition generate_frame :: "string \<Rightarrow> int \<Rightarrow> int \<Rightarrow> int \<Rightarrow> Message \<Rightarrow> Frame" where
  "generate_frame msg_type src_id dst_id msg_seq' payload =
     \<lparr>TYPE' = msg_type, SRC = src_id, DST = dst_id, SEQ = msg_seq', PAYLOAD = payload\<rparr>"

text \<open>
  \<^verbatim>\<open>Node.send\<close>, for a node of any subclass. The nested generator \<^verbatim>\<open>reenable_rx\<close> is
  started with \<^verbatim>\<open>env.process\<close>; an exception of the medium leaves the node with the
  radio flag and the counter already changed.
\<close>

definition send ::
  "Frame \<Rightarrow> 'a Node_scheme \<Rightarrow> Environment \<Rightarrow> Media
     \<Rightarrow> error option \<times> 'a Node_scheme \<times> Environment \<times> Media" where
  "send f n env m =
     (if \<not> radio_rx_enable n then (None, n, env, m)
      else
        (let n1 = n\<lparr>radio_rx_enable := False, local_tx_count := local_tx_count n + 1\<rparr>
         in case put f (node_id (node_config n1)) env m of
              (Some e, env', m') \<Rightarrow> (Some e, n1, env', m')
            | (None, env', m') \<Rightarrow>
                (None, n1, process env' (Reenable_rx (node_id (node_config n1))), m')))"

record Sink = Node +
  msg_seq :: int

definition increment_sequence_number :: "Sink \<Rightarrow> Sink" where
  "increment_sequence_number s = s\<lparr>msg_seq := msg_seq s + 1\<rparr>"

text \<open>
  \<^verbatim>\<open>Sink.trigger_flood\<close>. The flood identifier is \<^verbatim>\<open>uuid.uuid4().hex\<close>, which Python
  takes from the operating system's entropy and not from the seeded \<^verbatim>\<open>random\<close>
  stream: it is an input of its own here.
\<close>

definition trigger_flood ::
  "string \<Rightarrow> Sink \<Rightarrow> Environment \<Rightarrow> Media \<Rightarrow> error option \<times> Sink \<times> Environment \<times> Media" where
  "trigger_flood uuid4_hex s env m =
     (let s1 = increment_sequence_number s;
          flood_id = uuid4_hex;
          s2 = s1\<lparr>flood_beacon_ids := insert flood_id (flood_beacon_ids s1)\<rparr>;
          time = now env;
          seen = (case flood_beacon_times s2 flood_id of None \<Rightarrow> {} | Some ts \<Rightarrow> ts);
          s3 = s2\<lparr>flood_beacon_times := (flood_beacon_times s2)(flood_id \<mapsto> insert time seen)\<rparr>;
          fr = generate_frame ''FLOOD_BEACON'' (node_id (node_config s3)) 0 (msg_seq s3)
                 (FloodBeaconMessage flood_id)
      in case send fr s3 env m of
           (Some e, s4, env', m') \<Rightarrow> (Some e, s4, env', m')
         | (None, s4, env', m') \<Rightarrow>
             (None, s4, process env' (Flood_process (node_id (node_config s4)) fr), m'))"

section \<open>The entry point (core.py)\<close>

definition validate_simulation_parameters :: "int \<Rightarrow> real \<Rightarrow> int \<Rightarrow> int \<Rightarrow> error + unit" where
  "validate_simulation_parameters max_transmissions' loss_rate max_hops guard_time' =
     (if max_transmissions' < 0 then Inl ValueError
      else if loss_rate < 0 \<or> loss_rate > 1 then Inl ValueError
      else if max_hops < 1 then Inl ValueError
      else if guard_time' < 1 then Inl ValueError
      else Inr ())"

text \<open>
  \<^verbatim>\<open>main\<close>: the validation is its first statement. Everything after it (seeding, the
  environment, the medium, the nodes, \<^verbatim>\<open>env.run()\<close>, the results) runs on simpy's
  scheduler and is the parameter \<open>run\<close>; no environment exists, and so no event can be
  scheduled, before \<open>run\<close> is entered.
\<close>

definition main ::
  "(bool \<Rightarrow> int \<Rightarrow> real \<Rightarrow> int \<Rightarrow> int \<Rightarrow> int option \<Rightarrow> 'r)
     \<Rightarrow> bool \<Rightarrow> int \<Rightarrow> real \<Rightarrow> int \<Rightarrow> int \<Rightarrow> int option \<Rightarrow> error + 'r" where
  "main run debug_mode max_transmissions' loss_rate max_hops guard_time' rng_seed =
     (case validate_simulation_parameters max_transmissions' loss_rate max_hops guard_time' of
        Inl e \<Rightarrow> Inl e
      | Inr _ \<Rightarrow> Inr (run debug_mode max_transmissions' loss_rate max_hops guard_time' rng_seed))"

section \<open>The medium over a run\<close>

text \<open>
  The states the medium goes through while the simulation runs without an exception.
  The set \<open>called\<close> holds the senders that have invoked \<^verbatim>\<open>put\<close> during the current tick.
  Simulated time only moves forward, and only while no resolution is outstanding: the
  zero-delay resolution event \<^verbatim>\<open>put\<close> schedules is queued at the current time, and the
  scheduler fires every event of a time before it advances.
\<close>

inductive reachable :: "Environment \<times> int set \<times> Media \<times> rng \<Rightarrow> bool" where
  start: "reachable (env, {}, Media_init cfg, g)"
| connect: "reachable (env, called, m, g) \<Longrightarrow> reachable (env, called, get_output_conn nid m, g)"
| sent: "reachable (env, called, m, g) \<Longrightarrow> put f tid env m = (None, env', m')
     \<Longrightarrow> reachable (env', insert tid called, m', g)"
| resolved: "reachable (env, called, m, g) \<Longrightarrow> propagating m
     \<Longrightarrow> propagate A net m g = (None, m', g') \<Longrightarrow> reachable (env, called, m', g')"
| advance: "reachable (env, called, m, g) \<Longrightarrow> \<not> propagating m \<Longrightarrow> now env < t
     \<Longrightarrow> reachable (env\<lparr>now := t\<rparr>, {}, m, g)"

text \<open>
  What holds of every such state: the batch has one entry per sender at most, every
  buffered sender and every sender that called \<^verbatim>\<open>put\<close> in this tick is stamped with the
  current time, and a non-empty batch has its resolution outstanding.
\<close>

definition tick_invariant :: "Environment \<Rightarrow> int set \<Rightarrow> Media \<Rightarrow> bool" where
  "tick_invariant env called m \<longleftrightarrow>
     distinct (map sender_id (pending m))
     \<and> (\<forall>tx\<in>set (pending m). last_tx_time m (sender_id tx) = Some (now env))
     \<and> (\<forall>tid\<in>called. last_tx_time m tid = Some (now env))
     \<and> (pending m \<noteq> [] \<longrightarrow> propagating m)"

section \<open>The distance and the arithmetic of the examples\<close>

text \<open>
  The distance in the words of the specification: the Euclidean distance of two points,
  as a real number. \<open>math_dist A\<close> is what the code compares with the range instead.
\<close>

definition euclidean_distance :: "int \<times> int \<Rightarrow> int \<times> int \<Rightarrow> real" where
  "euclidean_distance p q = sqrt (real_of_int ((fst p - fst q)\<^sup>2 + (snd p - snd q)\<^sup>2))"

text \<open>
  An arithmetic to run the examples with: every operation returns the double (53
  significant bits, ties to even, normal range) nearest to the exact result. At the
  values the examples use, these are the results of Python:
  \<^verbatim>\<open>math.dist((0,0),(-1,0)) = 1.0\<close>, \<^verbatim>\<open>math.dist((0,0),(-2,0)) = 2.0\<close>,
  \<^verbatim>\<open>math.dist((0,0),(2,3)) = 3.605551275463989\<close> (8118979690322419 / 2^51, below the
  square root of 13), \<^verbatim>\<open>math.log2(4) = 2.0\<close>, \<^verbatim>\<open>0.5 ** 2.0 = 0.25\<close>, and
  \<^verbatim>\<open>(-0.5) ** math.log2(3)\<close> is a complex number.
\<close>

definition round_half_even :: "real \<Rightarrow> int" where
  "round_half_even y =
     (let f = \<lfloor>y\<rfloor>; r = y - of_int f
      in if r < 1 / 2 then f else if 1 / 2 < r then f + 1 else if even f then f else f + 1)"

definition nearest_double :: "real \<Rightarrow> real" where
  "nearest_double x =
     (if x = 0 then 0
      else
        (let e = \<lfloor>log 2 \<bar>x\<bar>\<rfloor>
         in sgn x * of_int (round_half_even (\<bar>x\<bar> * 2 powr (52 - of_int e)))
              * 2 powr (of_int e - 52)))"

definition nearest_pow :: "real \<Rightarrow> real \<Rightarrow> pow_result" where
  "nearest_pow b e =
     (if e = 0 then Real 1
      else if b = 0 then (if e < 0 then ZeroDivision else Real 0)
      else if 0 < b then Real (nearest_double (b powr e))
      else if e \<in> \<int>
        then Real (if even \<lfloor>e\<rfloor> then nearest_double ((- b) powr e)
                   else - nearest_double ((- b) powr e))
      else Complex)"

definition nearest_arith :: Arith where
  "nearest_arith =
     \<lparr>math_dist = (\<lambda>p q. nearest_double (euclidean_distance p q)),
      math_log2 = (\<lambda>n. nearest_double (log 2 (real n))),
      float_pow = nearest_pow\<rparr>"

section \<open>A small run\<close>

text \<open>
  Concrete values, as \<^verbatim>\<open>main\<close> and \<^verbatim>\<open>add_nodes\<close> build them with their defaults: the
  medium configuration, the sink (node 1) at the origin, three of its neighbours of hop 1
  (nodes 3, 5 and 8), a node of hop 2 (node 12), and a flood beacon.
\<close>

definition default_config :: MediaConfig where
  "default_config =
     \<lparr>capacity = \<infinity>, base_loss_rate = 6 / 10, DEBUG_MEDIA = False, ENABLE_CI = True\<rparr>"

definition node_at :: "int \<Rightarrow> int \<Rightarrow> int \<Rightarrow> int \<Rightarrow> NodeConfig" where
  "node_at nid x y hop =
     \<lparr>node_id = nid, node_posx = x, node_posy = y, node_hop = hop, max_transmissions = 1,
      guard_time = 100, radio_txdistance = 3 / 2, radio_channel = 7,
      DEBUG_POSITION = False, DEBUG_RADIO = False, DEBUG_SENSOR = False\<rparr>"

definition grid :: NetworkManager where
  "grid = [1 \<mapsto> node_at 1 0 0 0, 3 \<mapsto> node_at 3 (- 1) 0 1, 5 \<mapsto> node_at 5 0 (- 1) 1,
           8 \<mapsto> node_at 8 1 0 1, 12 \<mapsto> node_at 12 (- 2) 0 2]"

definition beacon :: Frame where
  "beacon = generate_frame ''FLOOD_BEACON'' 1 0 0 (FloodBeaconMessage ''f00d'')"

definition other_beacon :: Frame where
  "other_beacon = generate_frame ''FLOOD_BEACON'' 1 0 1 (FloodBeaconMessage ''beef'')"

definition tx_of :: "Frame \<Rightarrow> int \<Rightarrow> Transmission" where
  "tx_of f sid = \<lparr>frame = f, sender_id = sid\<rparr>"

definition empty_store :: Store where
  "empty_store = \<lparr>items = [], put_queue = []\<rparr>"

definition env_at :: "SimTime \<Rightarrow> Environment" where
  "env_at t = \<lparr>now = t, queue = [], eid = 0\<rparr>"

definition stream_of :: "real \<Rightarrow> rng" where
  "stream_of u = \<lparr>draws = (\<lambda>_. u), consumed = 0\<rparr>"

text \<open>The medium with the endpoints of the five nodes registered, in the order of their ids.\<close>

definition endpoints :: "MediaConfig \<Rightarrow> Media" where
  "endpoints cfg =
     get_output_conn 12 (get_output_conn 8 (get_output_conn 5 (get_output_conn 3
       (get_output_conn 1 (Media_init cfg)))))"

definition listening_node :: "int \<Rightarrow> bool \<Rightarrow> Node" where
  "listening_node nid rx =
     \<lparr>node_config = node_at nid 0 0 0, flood_beacon_ids = {}, flood_beacon_times = Map.empty,
      local_tx_count = 0, radio_rx_enable = rx\<rparr>"

definition new_sink :: Sink where
  "new_sink =
     \<lparr>node_config = node_at 1 0 0 0, flood_beacon_ids = {}, flood_beacon_times = Map.empty,
      local_tx_count = 0, radio_rx_enable = True, msg_seq = - 1\<rparr>"

text \<open>The sink sends the beacon at time 100: the environment and the medium afterwards.\<close>

definition sent_env :: Environment where
  "sent_env = fst (snd (put beacon 1 (env_at 100) (endpoints default_config)))"

definition sink_sent :: Media where
  "sink_sent = snd (snd (put beacon 1 (env_at 100) (endpoints default_config)))"


text \<open>
  A sender whose range was set to \<^verbatim>\<open>math.sqrt(13)\<close>, the double 8118979690322419 / 2^51,
  and a receiver at (2, 3); the medium of the two after the sender has sent the beacon.
\<close>

definition boundary_net :: NetworkManager where
  "boundary_net =
     [1 \<mapsto> (node_at 1 0 0 0)\<lparr>radio_txdistance := 8118979690322419 / 2 ^ 51\<rparr>,
      2 \<mapsto> node_at 2 2 3 3]"

definition boundary_sent :: Media where
  "boundary_sent =
     snd (snd (put beacon 1 (env_at 100)
       (get_output_conn 2 (get_output_conn 1 (Media_init default_config)))))"


section \<open>Auxiliary facts\<close>

subsection \<open>The loss handler\<close>






subsection \<open>The receiver loop\<close>

lemma candidates_out_of_range:
  assumes "\<forall>tx\<in>set pend. \<forall>s. net (sender_id tx) = Some s \<longrightarrow> \<not> in_range A s receiver"
  shows "candidates A net receiver pend = Inr rx \<Longrightarrow> rx = []"
  using assms
proof (induction pend arbitrary: rx)
  case Nil
  then show ?case by simp
next
  case (Cons tx txs)
  from Cons.prems(1) obtain s where s: "net (sender_id tx) = Some s"
    by (auto simp: get_node_def split: option.splits)
  with Cons.prems(2) have "\<not> in_range A s receiver" by simp
  with s Cons.prems(1) have "candidates A net receiver txs = Inr rx"
    by (simp add: get_node_def)
  moreover have "\<forall>tx\<in>set txs. \<forall>s. net (sender_id tx) = Some s \<longrightarrow> \<not> in_range A s receiver"
    using Cons.prems(2) by simp
  ultimately show ?case by (rule Cons.IH)
qed

lemma propagate_receiver_sender:
  "fst p \<in> sender_ids \<Longrightarrow> propagate_receiver A cfg net pend sender_ids p g = (None, snd p, g)"
  by (simp add: propagate_receiver_def)

lemma propagate_receiver_no_candidates:
  assumes "\<And>receiver rx. net (fst p) = Some receiver \<Longrightarrow> candidates A net receiver pend = Inr rx \<Longrightarrow> rx = []"
  shows "snd (propagate_receiver A cfg net pend sender_ids p g) = (snd p, g)"
proof (cases "fst p \<in> sender_ids")
  case True
  then show ?thesis by (simp add: propagate_receiver_sender)
next
  case False
  show ?thesis
  proof (cases "net (fst p)")
    case None
    then show ?thesis using False by (simp add: propagate_receiver_def get_node_def)
  next
    case (Some receiver)
    show ?thesis
    proof (cases "candidates A net receiver pend")
      case (Inl e)
      then show ?thesis using False Some by (simp add: propagate_receiver_def get_node_def)
    next
      case (Inr rx)
      with assms Some have "rx = []" by blast
      then show ?thesis using False Some Inr
        by (simp add: propagate_receiver_def get_node_def loss_handler_def)
    qed
  qed
qed


lemma sweep_Cons_raise:
  "propagate_receiver A cfg net pend sender_ids p g = (Some e, s', g')
   \<Longrightarrow> sweep A cfg net pend sender_ids (p # ps) g = (Some e, (fst p, s') # ps, g')"
  by simp

lemma sweep_Cons_return:
  "propagate_receiver A cfg net pend sender_ids p g = (None, s', g')
   \<Longrightarrow> sweep A cfg net pend sender_ids (p # ps) g =
       (fst (sweep A cfg net pend sender_ids ps g'),
        (fst p, s') # fst (snd (sweep A cfg net pend sender_ids ps g')),
        snd (snd (sweep A cfg net pend sender_ids ps g')))"
  by (simp split: prod.splits)

lemma sweep_nth_unchanged:
  assumes "i < length ps"
    and "\<And>g'. fst (snd (propagate_receiver A cfg net pend sender_ids (ps ! i) g')) = snd (ps ! i)"
  shows "fst (snd (sweep A cfg net pend sender_ids ps g)) ! i = ps ! i"
  using assms
proof (induction ps arbitrary: i g)
  case Nil
  then show ?case by simp
next
  case (Cons p ps)
  obtain r s' g' where pr: "propagate_receiver A cfg net pend sender_ids p g = (r, s', g')"
    by (metis prod_cases3)
  show ?case
  proof (cases i)
    case 0
    with Cons.prems(2) [of g] pr have "s' = snd p" by simp
    then have "(fst p, s') = p" by simp
    with pr 0 show ?thesis
      by (cases r) (simp_all only: sweep_Cons_return sweep_Cons_raise fst_conv snd_conv nth_Cons_0)
  next
    case (Suc j)
    with Cons.prems have j: "j < length ps"
      and u: "\<And>g'. fst (snd (propagate_receiver A cfg net pend sender_ids (ps ! j) g')) = snd (ps ! j)"
      by simp_all
    have "fst (snd (sweep A cfg net pend sender_ids ps g')) ! j = ps ! j"
      using Cons.IH [OF j u] .
    with pr Suc show ?thesis
      by (cases r) (simp_all only: sweep_Cons_return sweep_Cons_raise fst_conv snd_conv nth_Cons_Suc)
  qed
qed


lemma propagate_node_pipes:
  "node_pipes (fst (snd (propagate A net m g)))
     = fst (snd (sweep A (config m) net (pending m) (set (map sender_id (pending m))) (node_pipes m) g))"
  by (simp add: propagate_def Let_def split: prod.splits option.splits)

lemma propagate_returns:
  assumes "propagate A net m g = (None, m', g')"
  shows "pending m' = []" and "\<not> propagating m'" and "last_tx_time m' = last_tx_time m"
    and "config m' = config m"
  using assms by (auto simp: propagate_def Let_def split: prod.splits option.splits)

lemma propagate_last_tx_time:
  "last_tx_time (fst (snd (propagate A net m g))) = last_tx_time m"
  by (simp add: propagate_def Let_def split: prod.splits option.splits)


subsection \<open>The invariant of a tick\<close>

lemma put_repeated:
  "last_tx_time m tid = Some (now env) \<Longrightarrow> snd (put f tid env m) = (env, m)"
  by (simp add: put_def)

lemma put_tick_invariant:
  assumes "tick_invariant env called m" and "put f tid env m = (None, env', m')"
  shows "tick_invariant env' (insert tid called) m'"
proof (cases "last_tx_time m tid = Some (now env)")
  case True
  with assms(2) have "env' = env" "m' = m" by (auto simp: put_def split: if_splits)
  with assms(1) True show ?thesis by (simp add: tick_invariant_def)
next
  case False
  have fresh: "tid \<notin> sender_id ` set (pending m)"
  proof
    assume "tid \<in> sender_id ` set (pending m)"
    then obtain tx where "tx \<in> set (pending m)" "sender_id tx = tid" by auto
    with assms(1) have "last_tx_time m tid = Some (now env)"
      by (auto simp: tick_invariant_def)
    with False show False by simp
  qed
  from assms(2) False have n: "now env' = now env"
    and m': "pending m' = pending m @ [\<lparr>frame = f, sender_id = tid\<rparr>]"
      "last_tx_time m' = (last_tx_time m)(tid \<mapsto> now env)" "propagating m'"
    by (auto simp: put_def schedule_def Let_def split: if_splits)
  show ?thesis
    unfolding tick_invariant_def n m'(1,2)
    using assms(1) fresh m'(3) by (auto simp: tick_invariant_def)
qed

lemma reachable_tick_invariant:
  assumes "reachable s"
  shows "tick_invariant (fst s) (fst (snd s)) (fst (snd (snd s)))"
  using assms
proof (induction rule: reachable.induct)
  case (start env cfg g)
  show ?case by (simp add: tick_invariant_def Media_init_def)
next
  case (connect env called m g nid)
  then show ?case by (simp add: tick_invariant_def get_output_conn_def)
next
  case (sent env called m g f tid env' m')
  then show ?case by (simp add: put_tick_invariant)
next
  case (resolved env called m g net m' g')
  from propagate_returns [OF resolved.hyps(3)] resolved.IH
  show ?case by (simp add: tick_invariant_def)
next
  case (advance env called m g t)
  then show ?case by (auto simp: tick_invariant_def)
qed

lemma distinct_senders_filter:
  "distinct (map sender_id txs) \<Longrightarrow> length (filter (\<lambda>tx. sender_id tx = sid) txs) \<le> 1"
proof (induction txs)
  case Nil
  show ?case by simp
next
  case (Cons tx txs)
  show ?case
  proof (cases "sender_id tx = sid")
    case True
    from Cons.prems have "sender_id tx \<notin> sender_id ` set txs" by simp
    then have "sid \<notin> sender_id ` set txs" using True by simp
    then have "\<forall>x\<in>set txs. sender_id x \<noteq> sid" by blast
    then have "filter (\<lambda>tx. sender_id tx = sid) txs = []" by (simp add: filter_empty_conv)
    with True show ?thesis by simp
  next
    case False
    with Cons show ?thesis by simp
  qed
qed

subsection \<open>Rounding to the nearest double\<close>

lemma round_half_even_eq:
  assumes "of_int n - 1 / 2 < y" and "y < of_int n + 1 / 2"
  shows "round_half_even y = n"
proof (cases "of_int n \<le> y")
  case True
  then have "\<lfloor>y\<rfloor> = n" using assms(2) by linarith
  then show ?thesis using assms(2) by (simp add: round_half_even_def Let_def)
next
  case False
  then have f: "\<lfloor>y\<rfloor> = n - 1" using assms(1) by linarith
  have "1 / 2 < y - of_int (n - 1)" using assms(1) by simp
  then show ?thesis using f by (simp add: round_half_even_def Let_def)
qed

lemma round_half_even_of_int: "round_half_even (of_int n) = n"
  by (rule round_half_even_eq) simp_all

lemma floor_log2:
  assumes "0 < x" and "2 powr of_int e \<le> x" and "x < 2 powr (of_int e + 1)"
  shows "\<lfloor>log 2 x\<rfloor> = e"
proof -
  have "of_int e \<le> log 2 x" using assms(1,2) by (simp add: le_log_iff)
  moreover have "log 2 x < of_int e + 1" using assms(1,3) by (simp add: log_less_iff)
  ultimately show ?thesis by linarith
qed

lemma nearest_double_pos:
  assumes "0 < x" and "2 powr of_int e \<le> x" and "x < 2 powr (of_int e + 1)"
  shows "nearest_double x
     = of_int (round_half_even (x * 2 powr (52 - of_int e))) * 2 powr (of_int e - 52)"
proof -
  have "\<lfloor>log 2 \<bar>x\<bar>\<rfloor> = e" using assms by (simp add: floor_log2)
  then show ?thesis using assms(1) by (simp add: nearest_double_def Let_def)
qed

lemma nearest_double_1: "nearest_double 1 = 1"
proof -
  have "nearest_double 1
     = of_int (round_half_even (1 * 2 powr (52 - of_int 0))) * 2 powr (of_int 0 - 52)"
    by (rule nearest_double_pos) simp_all
  also have "(1::real) * 2 powr (52 - of_int 0) = of_int (2 ^ 52)" by simp
  finally show ?thesis by (simp only: round_half_even_of_int) (simp add: powr_minus)
qed

lemma nearest_double_2: "nearest_double 2 = 2"
proof -
  have "nearest_double 2
     = of_int (round_half_even (2 * 2 powr (52 - of_int 1))) * 2 powr (of_int 1 - 52)"
    by (rule nearest_double_pos) simp_all
  also have "(2::real) * 2 powr (52 - of_int 1) = of_int (2 ^ 52)" by simp
  finally show ?thesis by (simp only: round_half_even_of_int) (simp add: powr_minus)
qed


lemma sqrt_13_scaled:
  "real_of_int 8118979690322419 - 1 / 2 < sqrt 13 * 2 ^ 51"
  "sqrt 13 * 2 ^ 51 < real_of_int 8118979690322419 + 1 / 2"
proof -
  have "sqrt (13 * (2 ^ 51)\<^sup>2) = sqrt 13 * sqrt ((2 ^ 51)\<^sup>2)" by (rule real_sqrt_mult)
  also have "sqrt ((2 ^ 51)\<^sup>2) = (2 ^ 51 :: real)" by (subst real_sqrt_abs) simp
  finally have eq: "sqrt 13 * 2 ^ 51 = sqrt (13 * (2 ^ 51)\<^sup>2)" by (rule sym)
  have "(real_of_int 8118979690322419 - 1 / 2)\<^sup>2 < 13 * (2 ^ 51)\<^sup>2"
    by (simp add: power2_eq_square)
  then have "real_of_int 8118979690322419 - 1 / 2 < sqrt (13 * (2 ^ 51)\<^sup>2)"
    by (rule real_less_rsqrt)
  then show "real_of_int 8118979690322419 - 1 / 2 < sqrt 13 * 2 ^ 51" by (simp only: eq)
  have "13 * (2 ^ 51)\<^sup>2 < (real_of_int 8118979690322419 + 1 / 2)\<^sup>2"
    by (simp add: power2_eq_square)
  moreover have "0 \<le> real_of_int 8118979690322419 + 1 / 2" by simp
  ultimately have "sqrt (13 * (2 ^ 51)\<^sup>2) < real_of_int 8118979690322419 + 1 / 2"
    by (intro real_less_lsqrt)
  then show "sqrt 13 * 2 ^ 51 < real_of_int 8118979690322419 + 1 / 2" by (simp only: eq)
qed

lemma nearest_double_sqrt_13: "nearest_double (sqrt 13) = 8118979690322419 / 2 ^ 51"
proof -
  have lo: "(2::real) powr of_int 1 \<le> sqrt 13"
  proof -
    have "sqrt 4 \<le> sqrt 13" by (rule real_sqrt_le_mono) simp
    then show ?thesis by simp
  qed
  have hi: "sqrt 13 < 2 powr (of_int 1 + 1)"
  proof -
    have "sqrt 13 < sqrt 16" by (rule real_sqrt_less_mono) simp
    then show ?thesis by simp
  qed
  have "nearest_double (sqrt 13)
     = of_int (round_half_even (sqrt 13 * 2 powr (52 - of_int 1))) * 2 powr (of_int 1 - 52)"
    using lo hi by (intro nearest_double_pos) simp_all
  moreover have "sqrt 13 * 2 powr (52 - of_int 1) = sqrt 13 * 2 ^ 51" by simp
  moreover have "round_half_even (sqrt 13 * 2 ^ 51) = 8118979690322419"
    using sqrt_13_scaled by (rule round_half_even_eq)
  ultimately show ?thesis by (simp add: powr_minus)
qed

lemma sqrt_13_above: "8118979690322419 / 2 ^ 51 < sqrt 13"
proof -
  have "(8118979690322419 / 2 ^ 51 :: real)\<^sup>2 < 13" by (simp add: power2_eq_square)
  then show ?thesis by (rule real_less_rsqrt)
qed









subsection \<open>Evaluating the small run\<close>

lemma endpoints_eval:
  "endpoints cfg = \<lparr>config = cfg,
     node_pipes = [(1, empty_store), (3, empty_store), (5, empty_store), (8, empty_store),
                   (12, empty_store)],
     pending = [], propagating = False, last_tx_time = Map.empty\<rparr>"
  by (simp add: endpoints_def get_output_conn_def Media_init_def empty_store_def)

lemma sink_sent_eval:
  "sink_sent = \<lparr>config = default_config,
     node_pipes = [(1, empty_store), (3, empty_store), (5, empty_store), (8, empty_store),
                   (12, empty_store)],
     pending = [tx_of beacon 1], propagating = True, last_tx_time = [1 \<mapsto> 100]\<rparr>"
  by (simp add: sink_sent_def put_def endpoints_eval env_at_def tx_of_def Let_def)

lemma put_sink_eval:
  "put beacon 1 (env_at 100) (endpoints default_config) = (None, sent_env, sink_sent)"
  by (simp add: sent_env_def sink_sent_def put_def endpoints_eval Let_def)



lemma boundary_sent_eval:
  "boundary_sent = \<lparr>config = default_config,
     node_pipes = [(1, empty_store), (2, empty_store)],
     pending = [tx_of beacon 1], propagating = True, last_tx_time = [1 \<mapsto> 100]\<rparr>"
  by (simp add: boundary_sent_def put_def get_output_conn_def Media_init_def empty_store_def
      env_at_def tx_of_def Let_def)



lemma propagate_sink_sent_returns:
  "fst (propagate nearest_arith grid sink_sent (stream_of (1 / 2))) = None"
  by (simp add: propagate_def Let_def sink_sent_eval tx_of_def propagate_receiver_def
      get_node_def grid_def in_range_def nearest_arith_def euclidean_distance_def node_pos_def
      nearest_double_1 nearest_double_2 on_channel_def node_at_def
      loss_handler_def random_def stream_of_def default_config_def
      split: prod.splits option.splits)




section \<open>The claims\<close>






text \<open>
  Claim C3. If the id of a registered endpoint is among the sender ids of the batch that
  is resolved, the loop body does nothing for it, whatever the random stream holds, and
  after the resolution (finished or stopped by an exception) its entry of \<open>node_pipes\<close>,
  store included, is what it was: no frame is delivered to a node that transmitted in
  the tick.
\<close>

theorem sender_receives_nothing:
  assumes "i < length (node_pipes m)"
    and "fst (node_pipes m ! i) \<in> sender_id ` set (pending m)"
  shows "propagate_receiver A (config m) net (pending m) (set (map sender_id (pending m)))
           (node_pipes m ! i) g' = (None, snd (node_pipes m ! i), g')
       \<and> node_pipes (fst (snd (propagate A net m g))) ! i = node_pipes m ! i"
proof -
  let ?ids = "set (map sender_id (pending m))"
  have mem: "fst (node_pipes m ! i) \<in> ?ids" using assms(2) by simp
  then have body: "\<And>h. propagate_receiver A (config m) net (pending m) ?ids (node_pipes m ! i) h
      = (None, snd (node_pipes m ! i), h)"
    by (rule propagate_receiver_sender)
  then have "\<And>h. fst (snd (propagate_receiver A (config m) net (pending m) ?ids (node_pipes m ! i) h))
      = snd (node_pipes m ! i)" by simp
  with assms(1) have "fst (snd (sweep A (config m) net (pending m) ?ids (node_pipes m) g)) ! i
      = node_pipes m ! i" by (rule sweep_nth_unchanged)
  then show ?thesis using body by (simp add: propagate_node_pipes)
qed

text \<open>
  The sink has sent the beacon; the resolution leaves the sink's own store empty.
\<close>

theorem sender_receives_nothing_witness:
  "node_pipes sink_sent ! 0 = (1, empty_store)
   \<and> sender_id ` set (pending sink_sent) = {1}
   \<and> node_pipes (fst (snd (propagate nearest_arith grid sink_sent (stream_of (1 / 2))))) ! 0
     = (1, empty_store)"
proof -
  have h1: "0 < length (node_pipes sink_sent)" by (simp add: sink_sent_eval)
  have h2: "fst (node_pipes sink_sent ! 0) \<in> sender_id ` set (pending sink_sent)"
    by (simp add: sink_sent_eval tx_of_def)
  from sender_receives_nothing [OF h1 h2, of nearest_arith grid "stream_of (1 / 2)" "stream_of (1 / 2)"]
  show ?thesis by (simp add: sink_sent_eval tx_of_def)
qed

text \<open>
  Claim C4. In every state the medium reaches, the pending batch holds at most one
  transmission of each sender id, and for a sender that has already called \<^verbatim>\<open>put\<close> in the
  current tick a further call, with any frame, leaves the environment and the medium,
  so the pending batch, unchanged.
\<close>

theorem one_transmission_per_sender_per_tick:
  assumes "reachable (env, called, m, g)"
  shows "(\<forall>sid. length (filter (\<lambda>tx. sender_id tx = sid) (pending m)) \<le> 1)
       \<and> (\<forall>tid\<in>called. \<forall>f. snd (put f tid env m) = (env, m))"
proof -
  from reachable_tick_invariant [OF assms] have inv: "tick_invariant env called m" by simp
  then have "distinct (map sender_id (pending m))" by (simp add: tick_invariant_def)
  then have a: "\<forall>sid. length (filter (\<lambda>tx. sender_id tx = sid) (pending m)) \<le> 1"
    by (blast intro: distinct_senders_filter)
  from inv have "\<forall>tid\<in>called. last_tx_time m tid = Some (now env)"
    by (simp add: tick_invariant_def)
  then have "\<forall>tid\<in>called. \<forall>f. snd (put f tid env m) = (env, m)"
    by (simp add: put_repeated)
  with a show ?thesis by simp
qed

text \<open>
  The sink has sent the beacon at time 100; a second call in the same tick, with another
  frame, changes nothing, and the batch still holds the one transmission.
\<close>

theorem one_transmission_per_sender_per_tick_witness:
  "reachable (sent_env, {1}, sink_sent, stream_of (1 / 2))
   \<and> pending sink_sent = [tx_of beacon 1]
   \<and> length (filter (\<lambda>tx. sender_id tx = 1) (pending sink_sent)) \<le> 1
   \<and> snd (put other_beacon 1 sent_env sink_sent) = (sent_env, sink_sent)"
proof -
  have "reachable (env_at 100, {}, Media_init default_config, stream_of (1 / 2))"
    by (rule reachable.start)
  then have "reachable (env_at 100, {}, endpoints default_config, stream_of (1 / 2))"
    unfolding endpoints_def by (intro reachable.connect)
  then have r: "reachable (sent_env, {1}, sink_sent, stream_of (1 / 2))"
    using put_sink_eval by (rule reachable.sent)
  from one_transmission_per_sender_per_tick [OF r] show ?thesis using r
    by (simp add: sink_sent_eval)
qed

text \<open>
  Claim C5 (two runs with one configuration and one seed end with identical bookkeeping)
  does not hold of \<^verbatim>\<open>Sink.trigger_flood\<close>: the flood identifier it records comes from
  \<^verbatim>\<open>uuid.uuid4()\<close>, which the seed does not determine. From one and the same state, two
  identifiers give two different sets of flood ids seen.
\<close>

theorem trigger_flood_ids_follow_uuid:
  "flood_beacon_ids (fst (snd (trigger_flood ''f00d'' new_sink (env_at 100)
       (endpoints default_config))))
     = {''f00d''}
   \<and> flood_beacon_ids (fst (snd (trigger_flood ''beef'' new_sink (env_at 100)
       (endpoints default_config))))
     = {''beef''}
   \<and> flood_beacon_ids (fst (snd (trigger_flood ''f00d'' new_sink (env_at 100)
       (endpoints default_config))))
     \<noteq> flood_beacon_ids (fst (snd (trigger_flood ''beef'' new_sink (env_at 100)
       (endpoints default_config))))"
  by (simp add: trigger_flood_def send_def put_def increment_sequence_number_def new_sink_def
      endpoints_eval Let_def split: prod.splits option.splits)

text \<open>
  The range filter compares the float \<^verbatim>\<open>math.dist\<close> returns, not the Euclidean
  distance. The sender at (0, 0) has the range 8118979690322419 / 2^51, the double
  \<^verbatim>\<open>math.sqrt(13)\<close>, and the receiver is at (2, 3): the Euclidean distance, the square
  root of 13, is strictly greater than the range, yet \<^verbatim>\<open>math.dist\<close> rounds it to the
  range itself. The receiver passes the filter, a draw is taken, and with the draw 0.9
  the beacon is delivered.
\<close>

theorem rounded_distance_in_range_counterexample:
  "boundary_net 1 = Some ((node_at 1 0 0 0)\<lparr>radio_txdistance := 8118979690322419 / 2 ^ 51\<rparr>)
   \<and> boundary_net 2 = Some (node_at 2 2 3 3)
   \<and> pending boundary_sent = [tx_of beacon 1]
   \<and> euclidean_distance (0, 0) (2, 3) > 8118979690322419 / 2 ^ 51
   \<and> node_pipes boundary_sent ! 1 = (2, empty_store)
   \<and> propagate nearest_arith boundary_net boundary_sent (stream_of (9 / 10))
     = (None,
        boundary_sent\<lparr>node_pipes := [(1, empty_store), (2, \<lparr>items = [beacon], put_queue = []\<rparr>)],
          pending := [], propagating := False\<rparr>,
        (stream_of (9 / 10))\<lparr>consumed := 1\<rparr>)"
proof -
  have e: "euclidean_distance (0, 0) (2, 3) = sqrt 13" by (simp add: euclidean_distance_def)
  have d: "euclidean_distance (0, 0) (2, 3) > 8118979690322419 / 2 ^ 51"
    unfolding e by (rule sqrt_13_above)
  have p: "propagate nearest_arith boundary_net boundary_sent (stream_of (9 / 10))
     = (None,
        boundary_sent\<lparr>node_pipes := [(1, empty_store), (2, \<lparr>items = [beacon], put_queue = []\<rparr>)],
          pending := [], propagating := False\<rparr>,
        (stream_of (9 / 10))\<lparr>consumed := 1\<rparr>)"
    by (simp add: propagate_def Let_def boundary_sent_eval tx_of_def propagate_receiver_def
      get_node_def boundary_net_def in_range_def nearest_arith_def e node_pos_def
      nearest_double_sqrt_13 on_channel_def node_at_def store_put_def empty_store_def
      loss_handler_def random_def stream_of_def default_config_def)
  show ?thesis using d p by (simp add: boundary_net_def boundary_sent_eval)
qed

text \<open>
  Claim C6, as the code has it. If the distance that \<^verbatim>\<open>math.dist\<close> computes from every
  sender of the pending batch to a registered receiver is greater than that sender's
  \<open>radio_txdistance\<close>, the loop body leaves the receiver's store and the random stream as
  they are (nothing is delivered and no draw is taken), and after the resolution its
  entry of \<open>node_pipes\<close> is unchanged.
\<close>

theorem out_of_range_receives_nothing:
  assumes "i < length (node_pipes m)"
    and "net (fst (node_pipes m ! i)) = Some receiver"
    and "\<forall>tx\<in>set (pending m). \<forall>s. net (sender_id tx) = Some s
           \<longrightarrow> math_dist A (node_pos s) (node_pos receiver) > radio_txdistance s"
  shows "snd (propagate_receiver A (config m) net (pending m) (set (map sender_id (pending m)))
           (node_pipes m ! i) g') = (snd (node_pipes m ! i), g')
       \<and> node_pipes (fst (snd (propagate A net m g))) ! i = node_pipes m ! i"
proof -
  let ?ids = "set (map sender_id (pending m))"
  have far: "\<forall>tx\<in>set (pending m). \<forall>s. net (sender_id tx) = Some s \<longrightarrow> \<not> in_range A s receiver"
    using assms(3) by (simp add: in_range_def Let_def)
  have none: "\<And>r rx. net (fst (node_pipes m ! i)) = Some r
      \<Longrightarrow> candidates A net r (pending m) = Inr rx \<Longrightarrow> rx = []"
  proof -
    fix r rx
    assume "net (fst (node_pipes m ! i)) = Some r" and c: "candidates A net r (pending m) = Inr rx"
    with assms(2) have "r = receiver" by simp
    with far c show "rx = []" by (simp add: candidates_out_of_range)
  qed
  have body: "\<And>h. snd (propagate_receiver A (config m) net (pending m) ?ids (node_pipes m ! i) h)
      = (snd (node_pipes m ! i), h)"
    using none by (rule propagate_receiver_no_candidates)
  then have "\<And>h. fst (snd (propagate_receiver A (config m) net (pending m) ?ids (node_pipes m ! i) h))
      = snd (node_pipes m ! i)" by simp
  with assms(1) have "fst (snd (sweep A (config m) net (pending m) ?ids (node_pipes m) g)) ! i
      = node_pipes m ! i" by (rule sweep_nth_unchanged)
  then show ?thesis using body by (simp add: propagate_node_pipes)
qed

text \<open>
  Node 12 at (-2, 0) is at distance 2 from the sending sink, beyond the range 1.5: its
  store stays empty and the stream is not read.
\<close>

theorem out_of_range_receives_nothing_witness:
  "node_pipes sink_sent ! 4 = (12, empty_store)
   \<and> math_dist nearest_arith (node_pos (node_at 1 0 0 0)) (node_pos (node_at 12 (- 2) 0 2))
       > radio_txdistance (node_at 1 0 0 0)
   \<and> snd (propagate_receiver nearest_arith default_config grid [tx_of beacon 1] {1}
       (12, empty_store) (stream_of (1 / 2))) = (empty_store, stream_of (1 / 2))
   \<and> node_pipes (fst (snd (propagate nearest_arith grid sink_sent (stream_of (1 / 2))))) ! 4
     = (12, empty_store)"
proof -
  have far: "math_dist nearest_arith (node_pos (node_at 1 0 0 0)) (node_pos (node_at 12 (- 2) 0 2))
       > radio_txdistance (node_at 1 0 0 0)"
    by (simp add: nearest_arith_def euclidean_distance_def node_pos_def node_at_def
        nearest_double_2)
  have h1: "4 < length (node_pipes sink_sent)" by (simp add: sink_sent_eval)
  have h2: "grid (fst (node_pipes sink_sent ! 4)) = Some (node_at 12 (- 2) 0 2)"
    by (simp add: sink_sent_eval grid_def)
  have h3: "\<forall>tx\<in>set (pending sink_sent). \<forall>s. grid (sender_id tx) = Some s
           \<longrightarrow> math_dist nearest_arith (node_pos s) (node_pos (node_at 12 (- 2) 0 2))
               > radio_txdistance s"
    using far by (simp add: sink_sent_eval grid_def tx_of_def)
  from out_of_range_receives_nothing [OF h1 h2 h3, of "stream_of (1 / 2)" "stream_of (1 / 2)"]
  show ?thesis using far by (simp add: sink_sent_eval tx_of_def)
qed

text \<open>
  The last-transmission-time map is not cleared by the resolution. The sink sends at time
  100, which stamps it in the map; the resolution of that tick returns normally and the
  stamp is still there afterwards.
\<close>

theorem stamps_survive_resolution_counterexample:
  "last_tx_time (endpoints default_config) 1 = None
   \<and> put beacon 1 (env_at 100) (endpoints default_config) = (None, sent_env, sink_sent)
   \<and> last_tx_time sink_sent 1 = Some 100
   \<and> fst (propagate nearest_arith grid sink_sent (stream_of (1 / 2))) = None
   \<and> last_tx_time (fst (snd (propagate nearest_arith grid sink_sent (stream_of (1 / 2))))) 1
     = Some 100"
  by (simp add: propagate_last_tx_time propagate_sink_sent_returns put_sink_eval)
     (simp add: sink_sent_eval endpoints_eval)

text \<open>
  Claim C7, as the code has it. When the resolution of a tick returns, the pending batch
  is empty and the medium is idle again (\<open>propagating\<close> is False); the
  last-transmission-time map is left exactly as it was: the stamps recorded during the
  tick stay, and \<^verbatim>\<open>put\<close> tells an old stamp from a current one by comparing it with the time.
\<close>

theorem resolution_resets_batch_and_flag:
  assumes "fst (propagate A net m g) = None"
  shows "pending (fst (snd (propagate A net m g))) = []
       \<and> \<not> propagating (fst (snd (propagate A net m g)))
       \<and> last_tx_time (fst (snd (propagate A net m g))) = last_tx_time m"
proof -
  obtain m' g' where "propagate A net m g = (None, m', g')"
    using assms by (metis fst_conv prod_cases3)
  then show ?thesis using propagate_returns [of A net m g m' g'] by simp
qed

text \<open>
  After the sink's transmission is resolved the batch is empty, the flag is down and the
  map still holds the sink's stamp.
\<close>

theorem resolution_resets_batch_and_flag_witness:
  "pending sink_sent = [tx_of beacon 1] \<and> propagating sink_sent
   \<and> pending (fst (snd (propagate nearest_arith grid sink_sent (stream_of (1 / 2))))) = []
   \<and> \<not> propagating (fst (snd (propagate nearest_arith grid sink_sent (stream_of (1 / 2)))))
   \<and> last_tx_time (fst (snd (propagate nearest_arith grid sink_sent (stream_of (1 / 2)))))
     = [1 \<mapsto> 100]"
  using resolution_resets_batch_and_flag [OF propagate_sink_sent_returns]
  by (simp add: sink_sent_eval)

text \<open>
  Claim C8. \<^verbatim>\<open>Media.put\<close> raises if and only if no channel endpoint has been registered
  on the medium (\<open>node_pipes\<close> is empty); the error is the \<^verbatim>\<open>RuntimeError\<close>, and when it is
  raised the environment and the whole medium, so the pending batch and the
  last-transmission-time map, are left as they were.
\<close>

theorem put_raises_iff_no_pipes:
  "((\<exists>e. fst (put f tid env m) = Some e) \<longleftrightarrow> node_pipes m = [])
   \<and> (fst (put f tid env m) \<noteq> None \<longrightarrow> put f tid env m = (Some RuntimeError, env, m))"
  by (simp add: put_def Let_def)

text \<open>
  On the medium without endpoints the call raises and changes nothing; with the five
  endpoints registered it returns.
\<close>

theorem put_raises_iff_no_pipes_witness:
  "node_pipes (Media_init default_config) = []
   \<and> put beacon 1 (env_at 0) (Media_init default_config)
       = (Some RuntimeError, env_at 0, Media_init default_config)
   \<and> fst (put beacon 1 (env_at 0) (endpoints default_config)) = None"
proof -
  have a: "node_pipes (Media_init default_config) = []" by (simp add: Media_init_def)
  have b: "node_pipes (endpoints default_config) \<noteq> []" by (simp add: endpoints_eval)
  from a put_raises_iff_no_pipes [of beacon 1 "env_at 0" "Media_init default_config"]
  have "put beacon 1 (env_at 0) (Media_init default_config)
       = (Some RuntimeError, env_at 0, Media_init default_config)" by auto
  moreover from b put_raises_iff_no_pipes [of beacon 1 "env_at 0" "endpoints default_config"]
  have "fst (put beacon 1 (env_at 0) (endpoints default_config)) = None" by auto
  ultimately show ?thesis using a by simp
qed

text \<open>
  Claim C9. \<^verbatim>\<open>main\<close> fails with the configuration error exactly when a parameter is out of
  range: \<open>loss_rate < 0\<close> or \<open>loss_rate > 1\<close>, or \<open>max_hops < 1\<close>, or \<open>guard_time < 1\<close>, or
  \<open>max_transmissions < 0\<close>. It fails before the run is entered (the result does not
  depend on \<open>run\<close>, where the environment is created and events are scheduled); for
  parameters in range the validation raises nothing and the run is entered.
\<close>

theorem main_configuration_error:
  "((\<exists>e. main run debug_mode mt lr mh gt seed = Inl e)
      \<longleftrightarrow> (lr < 0 \<or> lr > 1 \<or> mh < 1 \<or> gt < 1 \<or> mt < 0))
   \<and> main run debug_mode mt lr mh gt seed
       = (if lr < 0 \<or> lr > 1 \<or> mh < 1 \<or> gt < 1 \<or> mt < 0 then Inl ValueError
          else Inr (run debug_mode mt lr mh gt seed))"
  by (auto simp: main_def validate_simulation_parameters_def)

text \<open>
  Claim C10. For a node whose \<open>radio_rx_enable\<close> flag is False, \<^verbatim>\<open>Node.send\<close> does nothing:
  the node (flag and \<open>local_tx_count\<close> included), the environment (no re-enable process is
  started) and the medium (no frame handed over) come back unchanged.
\<close>

theorem send_while_guarded_is_noop:
  "\<not> radio_rx_enable n \<Longrightarrow> send f n env m = (None, n, env, m)"
  by (simp add: send_def)

text \<open>
  Node 3 inside its guard time sends the beacon: nothing changes.
\<close>

theorem send_while_guarded_is_noop_witness:
  "\<not> radio_rx_enable (listening_node 3 False)
   \<and> send beacon (listening_node 3 False) (env_at 100) (endpoints default_config)
       = (None, listening_node 3 False, env_at 100, endpoints default_config)"
proof -
  have h: "\<not> radio_rx_enable (listening_node 3 False)" by (simp add: listening_node_def)
  show ?thesis using h send_while_guarded_is_noop [OF h] by simp
qed

end
